theory Spec2Isabelle
  imports Complex_Main "HOL-Library.AList" "HOL-Library.Word"
begin

section \<open>Traffic Ops routing: the route table and the dispatch engine\<close>

text \<open>
  A shallow embedding of \<^verbatim>\<open>traffic_ops/traffic_ops_golang/routing/routing.go\<close>.

  \<^item> \<^verbatim>\<open>http.HandlerFunc\<close> is opaque to the routing layer, so handlers are a type
    variable \<open>'h\<close> and a \<^verbatim>\<open>Middleware\<close> is a function \<open>'h \<Rightarrow> 'h\<close>.
  \<^item> The wrappers of \<^verbatim>\<open>wrappers.go\<close> and the synthesized handlers are collaborators
    whose code is not part of the routing file; they are the fields of the record
    \<open>wrappers\<close>, and every theorem holds for whatever they are.
  \<^item> A panic is a value \<open>Inl e\<close> of the result type.
  \<^item> A Go map keyed by method is an association list with distinct keys; a Go map
    used as a set is a set.
\<close>

subsection \<open>Data model\<close>

type_synonym 'h Middleware = "'h \<Rightarrow> 'h"

text \<open>\<^verbatim>\<open>time.Duration\<close> is an int64 count of nanoseconds.\<close>

type_synonym Duration = "64 word"

text \<open>
  \<^verbatim>\<open>Route.Version\<close> is a float64. A version is modelled by the decimal number it is
  declared as (\<open>1.2\<close> is \<open>12 / 10\<close>): float64 represents decimals of at most 15
  significant digits injectively and monotonically, and integers below \<open>2 ^ 53\<close>
  exactly, so comparison, sorting, map-key equality and the conversion to \<^verbatim>\<open>int\<close>
  agree with the decimal. NaN and the infinities are outside the model.

  \<^verbatim>\<open>Middlewares\<close> is a slice that the code compares with \<^verbatim>\<open>nil\<close>: \<open>None\<close> is the nil
  slice, \<open>Some ms\<close> a supplied one (possibly empty).
\<close>

record 'h Route =
  Version :: rat
  Method :: string
  Path :: string
  Handler :: 'h
  RequiredPrivLevel :: int
  Authenticated :: bool
  Middlewares :: "'h Middleware list option"
  ID :: int
  CanBypassToPerl :: bool

record 'h RawRoute =
  rawMethod :: string
  rawPath :: string
  rawHandler :: 'h
  rawRequiredPrivLevel :: int
  rawAuthenticated :: bool
  rawMiddlewares :: "'h Middleware list option"

record 'h PathHandler =
  phPath :: string
  phHandler :: 'h

text \<open>
  \<^verbatim>\<open>AuthBase\<close> as \<^verbatim>\<open>RegisterRoutes\<close> constructs it:
  \<^verbatim>\<open>AuthBase{secret: d.Config.Secrets[0], override: nil}\<close>.
\<close>

record 'h AuthBase =
  secret :: string
  override :: "'h Middleware option"

text \<open>
  The collaborators of the routing file: \<^verbatim>\<open>getWrapAccessLog\<close>, \<^verbatim>\<open>wrapAccessLog\<close>,
  \<^verbatim>\<open>timeOutWrapper\<close>, \<^verbatim>\<open>wrapHeaders\<close>, \<^verbatim>\<open>wrapPanicRecover\<close>,
  \<^verbatim>\<open>AuthBase.GetWrapper\<close>, \<^verbatim>\<open>DisabledRouteHandler()\<close> and
  \<^verbatim>\<open>NotImplementedHandler()\<close>.
\<close>

record 'h wrappers =
  getWrapAccessLog :: "string \<Rightarrow> 'h Middleware"
  wrapAccessLog :: "string \<Rightarrow> 'h \<Rightarrow> 'h"
  timeOutWrapper :: "Duration \<Rightarrow> 'h Middleware"
  wrapHeaders :: "'h Middleware"
  wrapPanicRecover :: "'h Middleware"
  GetWrapper :: "'h AuthBase \<Rightarrow> int \<Rightarrow> 'h Middleware"
  DisabledRouteHandler :: 'h
  NotImplementedHandler :: 'h

datatype error = MalformedRoute | SliceBoundsOutOfRange | IndexOutOfRange | RegexpOutsideModel

subsection \<open>Middleware composition\<close>

text \<open>
  \<^verbatim>\<open>for i := len(middlewares) - 1; i >= 0; i-- { h = middlewares[i](h) }\<close>:
  \<open>use_from h ms n\<close> is the loop with \<open>n = i + 1\<close> iterations left.
\<close>

fun use_from :: "'h \<Rightarrow> 'h Middleware list \<Rightarrow> nat \<Rightarrow> 'h" where
  "use_from h ms 0 = h"
| "use_from h ms (Suc i) = use_from ((ms ! i) h) ms i"

definition use :: "'h \<Rightarrow> 'h Middleware list \<Rightarrow> 'h" where
  "use h ms = use_from h ms (length ms)"

definition getDefaultMiddleware :: "'h wrappers \<Rightarrow> string \<Rightarrow> Duration \<Rightarrow> 'h Middleware list" where
  "getDefaultMiddleware w sec requestTimeout =
     [getWrapAccessLog w sec, timeOutWrapper w requestTimeout, wrapHeaders w, wrapPanicRecover w]"

definition getRouteMiddleware ::
  "'h wrappers \<Rightarrow> 'h Middleware list option \<Rightarrow> 'h AuthBase \<Rightarrow> bool \<Rightarrow> int \<Rightarrow> Duration
     \<Rightarrow> 'h Middleware list" where
  "getRouteMiddleware w middlewares authBase authenticated privLevel requestTimeout =
     (let middlewares1 =
            (case middlewares of
               None \<Rightarrow> getDefaultMiddleware w (secret authBase) requestTimeout
             | Some ms \<Rightarrow> ms)
      in if authenticated
         then middlewares1 @ [GetWrapper w authBase privLevel]
         else middlewares1)"

text \<open>
  A middleware with observable pre- and post-logic, over handlers that extend a log of
  events: it records \<open>pre\<close>, runs the wrapped handler, then records \<open>post\<close>.
\<close>

definition around :: "'e \<Rightarrow> 'e \<Rightarrow> ('e list \<Rightarrow> 'e list) Middleware" where
  "around pre post h = (\<lambda>tr. h (tr @ [pre]) @ [post])"

subsection \<open>Strings of the Go library\<close>

definition Index :: "string \<Rightarrow> char \<Rightarrow> int" where
  "Index s c = (if c \<in> set s then int (length (takeWhile (\<lambda>x. x \<noteq> c) s)) else - 1)"

lemma Index_pos_nth:
  assumes "0 \<le> Index s c"
  shows "c \<in> set s" "nat (Index s c) < length s" "s ! nat (Index s c) = c"
        "take (nat (Index s c)) s = takeWhile (\<lambda>x. x \<noteq> c) s"
proof -
  show c: "c \<in> set s" using assms by (auto simp: Index_def split: if_splits)
  then have i: "nat (Index s c) = length (takeWhile (\<lambda>x. x \<noteq> c) s)" by (simp add: Index_def)
  have "c \<in> set s \<Longrightarrow> length (takeWhile (\<lambda>x. x \<noteq> c) s) < length s"
    by (induction s) auto
  with c have lt: "length (takeWhile (\<lambda>x. x \<noteq> c) s) < length s" by simp
  show "nat (Index s c) < length s" using i lt by simp
  show "s ! nat (Index s c) = c" using i lt nth_length_takeWhile[of "\<lambda>x. x \<noteq> c" s] by simp
  show "take (nat (Index s c)) s = takeWhile (\<lambda>x. x \<noteq> c) s"
    unfolding i by (rule takeWhile_eq_take [symmetric])
qed

definition braces :: "string \<Rightarrow> nat" where
  "braces s = length (filter (\<lambda>x. x = CHR ''{'') s)"

function compileLoop :: "string \<Rightarrow> string list \<Rightarrow> error + (string \<times> string list)" where
  "compileLoop route params =
     (let opn = Index route CHR ''{'' in
      if 0 < opn then
        (let cls = Index route CHR ''}'' in
         if cls < 0 then Inl MalformedRoute
         else if cls < opn + 1 then Inl SliceBoundsOutOfRange
         else compileLoop (take (nat opn) route @ ''([^/]+)'' @ drop (nat (cls + 1)) route)
                (params @ [take (nat (cls - (opn + 1))) (drop (nat (opn + 1)) route)]))
      else Inr (route, params))"
  by pat_completeness auto

lemma braces_step:
  assumes o: "0 < Index route CHR ''{''" and c: "Index route CHR ''{'' + 1 \<le> cls"
  shows "braces (take (nat (Index route CHR ''{'')) route @ ''([^/]+)'' @ drop (nat (cls + 1)) route)
         < braces route"
proof -
  let ?o = "nat (Index route CHR ''{'')"
  have o0: "0 \<le> Index route CHR ''{''" using o by simp
  note f = Index_pos_nth[OF o0]
  have t: "braces (take ?o route) = 0"
    unfolding braces_def f(4) by (simp add: filter_empty_conv) (metis set_takeWhileD)
  have d: "drop ?o route = CHR ''{'' # drop (Suc ?o) route"
    using f(2,3) by (metis Cons_nth_drop_Suc)
  have "route = take ?o route @ drop ?o route" by simp
  then have "braces route = braces (take ?o route) + braces (drop ?o route)"
    unfolding braces_def by (metis filter_append length_append)
  then have r: "braces route = Suc (braces (drop (Suc ?o) route))"
    using t d by (simp add: braces_def)
  define k where "k = nat (cls + 1) - Suc ?o"
  have k: "nat (cls + 1) = k + Suc ?o"
    using c o unfolding k_def by arith
  have dd: "drop (k + Suc ?o) route = drop k (drop (Suc ?o) route)"
    by (simp only: drop_drop)
  have le: "\<And>n xs. braces (drop n xs) \<le> braces (xs::string)"
    unfolding braces_def by (metis append_take_drop_id filter_append length_append le_add2)
  have "braces (drop (nat (cls + 1)) route) \<le> braces (drop (Suc ?o) route)"
    unfolding k dd by (rule le)
  with t r show ?thesis by (simp add: braces_def)
qed

termination compileLoop
proof (relation "measure (\<lambda>(route, params). braces route)", goal_cases)
  case 1
  show ?case by simp
next
  case (2 route params opn cls)
  then have "0 < Index route CHR ''{''" and "Index route CHR ''{'' + 1 \<le> cls"
    by simp_all
  from braces_step[OF this] 2 show ?case by simp
qed

declare compileLoop.simps [simp del]

subsection \<open>Regular expressions\<close>

datatype re_item = Lit char | AnyChar | Bol | Eol | Seg

type_synonym regex = "re_item list"

definition re_meta :: "char set" where
  "re_meta = set (CHR 0x5C # ''*+?()[]|'')"

fun regexp_parse :: "string \<Rightarrow> regex option" where
  "regexp_parse [] = Some []"
| "regexp_parse (c # cs) =
     (if c = CHR ''('' then
        (if take 6 cs = ''[^/]+)'' then map_option (Cons Seg) (regexp_parse (drop 6 cs)) else None)
      else if c = CHR ''^'' then map_option (Cons Bol) (regexp_parse cs)
      else if c = CHR ''$'' then map_option (Cons Eol) (regexp_parse cs)
      else if c = CHR ''.'' then map_option (Cons AnyChar) (regexp_parse cs)
      else if c = CHR ''{'' then
        (case cs of
           [] \<Rightarrow> Some [Lit c]
         | d # ds \<Rightarrow> if d \<in> set ''0123456789'' then None else map_option (Cons (Lit c)) (regexp_parse cs))
      else if c \<in> re_meta then None
      else map_option (Cons (Lit c)) (regexp_parse cs))"

fun first_some :: "('a \<Rightarrow> 'b option) \<Rightarrow> 'a list \<Rightarrow> 'b option" where
  "first_some f [] = None"
| "first_some f (x # xs) = (case f x of Some y \<Rightarrow> Some y | None \<Rightarrow> first_some f xs)"

fun match_here :: "regex \<Rightarrow> bool \<Rightarrow> string \<Rightarrow> (nat \<times> string list) option" where
  "match_here [] b s = Some (0, [])"
| "match_here (Lit c # r) b s =
     (case s of [] \<Rightarrow> None
      | x # xs \<Rightarrow> if x = c then map_option (\<lambda>(n, caps). (Suc n, caps)) (match_here r False xs) else None)"
| "match_here (AnyChar # r) b s =
     (case s of [] \<Rightarrow> None
      | x # xs \<Rightarrow> if x \<noteq> CHR 0x0A then map_option (\<lambda>(n, caps). (Suc n, caps)) (match_here r False xs) else None)"
| "match_here (Bol # r) b s = (if b then match_here r b s else None)"
| "match_here (Eol # r) b s = (if s = [] then match_here r b s else None)"
| "match_here (Seg # r) b s =
     first_some (\<lambda>n. map_option (\<lambda>(k, caps). (n + k, take n s # caps)) (match_here r False (drop n s)))
       (rev [1..<Suc (length (takeWhile (\<lambda>x. x \<noteq> CHR ''/'') s))])"

fun find_from :: "regex \<Rightarrow> bool \<Rightarrow> string \<Rightarrow> string list" where
  "find_from r b [] = (case match_here r b [] of Some (n, caps) \<Rightarrow> [] # caps | None \<Rightarrow> [])"
| "find_from r b (x # xs) =
     (case match_here r b (x # xs) of
        Some (n, caps) \<Rightarrow> take n (x # xs) # caps
      | None \<Rightarrow> find_from r False xs)"

definition FindStringSubmatch :: "regex \<Rightarrow> string \<Rightarrow> string list" where
  "FindStringSubmatch r s = find_from r True s"

subsection \<open>Strings and numbers of the Go library\<close>

fun Split :: "string \<Rightarrow> char \<Rightarrow> string list" where
  "Split [] sep = [[]]"
| "Split (x # xs) sep =
     (if x = sep then [] # Split xs sep
      else (case Split xs sep of [] \<Rightarrow> [[x]] | p # ps \<Rightarrow> (x # p) # ps))"

definition lower_char :: "char \<Rightarrow> char" where
  "lower_char c =
     (case map_of (zip ''ABCDEFGHIJKLMNOPQRSTUVWXYZ'' ''abcdefghijklmnopqrstuvwxyz'') c of
        None \<Rightarrow> c | Some d \<Rightarrow> d)"

definition ToLower :: "string \<Rightarrow> string" where
  "ToLower s = map lower_char s"

definition digit_char :: "nat \<Rightarrow> char" where
  "digit_char d = ''0123456789'' ! d"

function show_nat :: "nat \<Rightarrow> string" where
  "show_nat n = (if n < 10 then [digit_char n] else show_nat (n div 10) @ [digit_char (n mod 10)])"
  by pat_completeness auto
termination
  by (relation "measure id") auto

declare show_nat.simps [simp del]

fun frac_digits :: "nat \<Rightarrow> rat \<Rightarrow> string" where
  "frac_digits 0 x = []"
| "frac_digits (Suc n) x =
     (if x = 0 then []
      else digit_char (nat \<lfloor>x * 10\<rfloor>) # frac_digits n (x * 10 - of_int \<lfloor>x * 10\<rfloor>))"

definition FormatFloat :: "rat \<Rightarrow> string" where
  "FormatFloat v =
     (if v < 0 then ''-'' else []) @ show_nat (nat \<lfloor>\<bar>v\<bar>\<rfloor>)
       @ (if \<bar>v\<bar> - of_int \<lfloor>\<bar>v\<bar>\<rfloor> = 0 then []
          else ''.'' @ frac_digits 20 (\<bar>v\<bar> - of_int \<lfloor>\<bar>v\<bar>\<rfloor>))"

definition int_of_float :: "rat \<Rightarrow> int" where
  "int_of_float x = (if 0 \<le> x then \<lfloor>x\<rfloor> else - \<lfloor>- x\<rfloor>)"

definition digit_val :: "char \<Rightarrow> nat option" where
  "digit_val c = map_of (zip ''0123456789'' [0, 1, 2, 3, 4, 5, 6, 7, 8, 9]) c"

fun digits_val :: "string \<Rightarrow> nat \<Rightarrow> nat option" where
  "digits_val [] acc = Some acc"
| "digits_val (c # cs) acc =
     (case digit_val c of None \<Rightarrow> None | Some d \<Rightarrow> digits_val cs (acc * 10 + d))"

definition ParseFloat_decimal :: "string \<Rightarrow> rat option" where
  "ParseFloat_decimal s =
     (let neg = (take 1 s = ''-'');
          body = (if take 1 s = ''-'' \<or> take 1 s = ''+'' then drop 1 s else s);
          ip = takeWhile (\<lambda>c. c \<noteq> CHR ''.'') body;
          fp = drop 1 (dropWhile (\<lambda>c. c \<noteq> CHR ''.'') body)
      in if ip @ fp = [] then None
         else (case (digits_val ip 0, digits_val fp 0) of
                 (Some i, Some f) \<Rightarrow>
                   Some ((if neg then - 1 else 1) * (of_nat i + of_nat f / 10 ^ length fp))
               | _ \<Rightarrow> None))"


subsection \<open>Route table builder\<close>

definition RoutePrefix :: string where
  "RoutePrefix = ''^api''"

definition getSortedRouteVersions :: "'h Route list \<Rightarrow> rat list" where
  "getSortedRouteVersions rs = sort (remdups (map Version rs))"

definition SearchFloat64s :: "rat list \<Rightarrow> rat \<Rightarrow> nat" where
  "SearchFloat64s a x = length (takeWhile (\<lambda>v. v < x) a)"

definition GetRouteIDMap :: "int list \<Rightarrow> int set" where
  "GetRouteIDMap ids = set ids"

definition time_Second :: Duration where
  "time_Second = 1000000000"

type_synonym 'h RouteMap = "(string \<times> 'h PathHandler list) list"

definition routesAt :: "(string \<times> 'a list) list \<Rightarrow> string \<Rightarrow> 'a list" where
  "routesAt m k = (case map_of m k of None \<Rightarrow> [] | Some l \<Rightarrow> l)"

definition appendAt :: "(string \<times> 'a list) list \<Rightarrow> string \<Rightarrow> 'a \<Rightarrow> (string \<times> 'a list) list" where
  "appendAt m k x = AList.update k (routesAt m k @ [x]) m"

fun mountLoop ::
  "'h wrappers \<Rightarrow> int set \<Rightarrow> int set \<Rightarrow> 'h \<Rightarrow> 'h AuthBase \<Rightarrow> Duration \<Rightarrow> 'h Route
     \<Rightarrow> rat list \<Rightarrow> 'h RouteMap \<Rightarrow> 'h RouteMap" where
  "mountLoop w perlRoutes disabledRoutes perlHandler authBase requestTimeout r [] m = m"
| "mountLoop w perlRoutes disabledRoutes perlHandler authBase requestTimeout r (version # rest) m =
     (let nextMajorVer = of_int (int_of_float (Version r) + 1);
          isPerlRoute = (ID r \<in> perlRoutes);
          isDisabledRoute = (ID r \<in> disabledRoutes)
      in if version \<ge> nextMajorVer then m
         else
          (let vstr = FormatFloat version;
               path = RoutePrefix @ ''/'' @ vstr @ ''/'' @ Path r;
               middlewares = getRouteMiddleware w (Middlewares r) authBase (Authenticated r)
                               (RequiredPrivLevel r) requestTimeout
           in mountLoop w perlRoutes disabledRoutes perlHandler authBase requestTimeout r rest
                (if isPerlRoute then
                   appendAt m (Method r) \<lparr>phPath = path, phHandler = perlHandler\<rparr>
                 else if isDisabledRoute then
                   appendAt m (Method r)
                     \<lparr>phPath = path,
                      phHandler = wrapAccessLog w (secret authBase) (DisabledRouteHandler w)\<rparr>
                 else
                   appendAt m (Method r)
                     \<lparr>phPath = path, phHandler = use (Handler r) middlewares\<rparr>)))"

fun routesLoop ::
  "'h wrappers \<Rightarrow> int set \<Rightarrow> int set \<Rightarrow> 'h \<Rightarrow> 'h AuthBase \<Rightarrow> Duration \<Rightarrow> rat list
     \<Rightarrow> 'h Route list \<Rightarrow> 'h RouteMap \<Rightarrow> 'h RouteMap" where
  "routesLoop w perlRoutes disabledRoutes perlHandler authBase requestTimeout versions [] m = m"
| "routesLoop w perlRoutes disabledRoutes perlHandler authBase requestTimeout versions (r # rs) m =
     (let versionI = SearchFloat64s versions (Version r)
      in routesLoop w perlRoutes disabledRoutes perlHandler authBase requestTimeout versions rs
           (mountLoop w perlRoutes disabledRoutes perlHandler authBase requestTimeout r
              (drop versionI versions) m))"

fun rawLoop ::
  "'h wrappers \<Rightarrow> 'h AuthBase \<Rightarrow> Duration \<Rightarrow> 'h RawRoute list \<Rightarrow> 'h RouteMap \<Rightarrow> 'h RouteMap" where
  "rawLoop w authBase requestTimeout [] m = m"
| "rawLoop w authBase requestTimeout (r # rs) m =
     (let middlewares = getRouteMiddleware w (rawMiddlewares r) authBase (rawAuthenticated r)
                          (rawRequiredPrivLevel r) requestTimeout
      in rawLoop w authBase requestTimeout rs
           (appendAt m (rawMethod r)
              \<lparr>phPath = rawPath r, phHandler = use (rawHandler r) middlewares\<rparr>))"

definition CreateRouteMap ::
  "'h wrappers \<Rightarrow> 'h Route list \<Rightarrow> 'h RawRoute list \<Rightarrow> int list \<Rightarrow> int list \<Rightarrow> 'h \<Rightarrow> 'h AuthBase
     \<Rightarrow> int \<Rightarrow> 'h RouteMap \<times> rat set" where
  "CreateRouteMap w rs rawRoutes perlRouteIDs disabledRouteIDs perlHandler authBase reqTimeOutSeconds =
     (let versions = getSortedRouteVersions rs;
          requestTimeout = (if reqTimeOutSeconds > 0
                            then time_Second * word_of_int reqTimeOutSeconds
                            else time_Second * 60);
          perlRoutes = GetRouteIDMap perlRouteIDs;
          disabledRoutes = GetRouteIDMap disabledRouteIDs;
          m = routesLoop w perlRoutes disabledRoutes perlHandler authBase requestTimeout versions rs [];
          m1 = rawLoop w authBase requestTimeout rawRoutes m;
          versionSet = set versions
      in (m1, versionSet))"

subsection \<open>Path compiler\<close>

record 'h CompiledRoute =
  crHandler :: 'h
  crRegex :: regex
  crParams :: "string list"

definition compilePathHandler :: "'h PathHandler \<Rightarrow> error + 'h CompiledRoute" where
  "compilePathHandler pathHandler =
     (case compileLoop (phPath pathHandler) [] of
        Inl e \<Rightarrow> Inl e
      | Inr (route, params) \<Rightarrow>
          (case regexp_parse route of
             None \<Rightarrow> Inl RegexpOutsideModel
           | Some regex \<Rightarrow>
               Inr \<lparr>crHandler = phHandler pathHandler, crRegex = regex, crParams = params\<rparr>))"

type_synonym 'h CompiledMap = "(string \<times> 'h CompiledRoute list) list"

fun compileMethod ::
  "string \<Rightarrow> 'h PathHandler list \<Rightarrow> 'h CompiledMap \<Rightarrow> error + 'h CompiledMap" where
  "compileMethod method [] compiledRoutes = Inr compiledRoutes"
| "compileMethod method (pathHandler # mRoutes) compiledRoutes =
     (case compilePathHandler pathHandler of
        Inl e \<Rightarrow> Inl e
      | Inr c \<Rightarrow> compileMethod method mRoutes (appendAt compiledRoutes method c))"

fun compileAll :: "'h RouteMap \<Rightarrow> 'h CompiledMap \<Rightarrow> error + 'h CompiledMap" where
  "compileAll [] compiledRoutes = Inr compiledRoutes"
| "compileAll ((method, mRoutes) # routes) compiledRoutes =
     (case compileMethod method mRoutes compiledRoutes of
        Inl e \<Rightarrow> Inl e
      | Inr compiledRoutes1 \<Rightarrow> compileAll routes compiledRoutes1)"

definition CompileRoutes :: "'h RouteMap \<Rightarrow> error + 'h CompiledMap" where
  "CompileRoutes routes = compileAll routes []"

subsection \<open>Dispatch engine\<close>

datatype 'h outcome =
    PluginHandled
  | ServeRoute 'h "string \<rightharpoonup> string"
  | ServeNotImplemented 'h
  | ServeCatchall

fun bindLoop ::
  "string list \<Rightarrow> nat \<Rightarrow> string list \<Rightarrow> (string \<rightharpoonup> string) \<Rightarrow> error + (string \<rightharpoonup> string)" where
  "bindLoop [] i match params = Inr params"
| "bindLoop (v # vs) i match params =
     (if i + 1 < length match then bindLoop vs (i + 1) match (params(v \<mapsto> match ! (i + 1)))
      else Inl IndexOutOfRange)"

fun matchLoop :: "'h CompiledRoute list \<Rightarrow> string \<Rightarrow> error + ('h \<times> (string \<rightharpoonup> string)) option" where
  "matchLoop [] requested = Inr None"
| "matchLoop (compiledRoute # mRoutes) requested =
     (let match = FindStringSubmatch (crRegex compiledRoute) requested
      in if length match = 0 then matchLoop mRoutes requested
         else (case bindLoop (crParams compiledRoute) 0 match Map.empty of
                 Inl e \<Rightarrow> Inl e
               | Inr params \<Rightarrow> Inr (Some (crHandler compiledRoute, params))))"

definition IsRequestAPIAndUnknownVersion ::
  "(string \<Rightarrow> rat option) \<Rightarrow> string \<Rightarrow> rat set \<Rightarrow> bool" where
  "IsRequestAPIAndUnknownVersion ParseFloat path versions =
     (let pathParts = Split path CHR ''/''
      in if length pathParts < 2 then False
         else if ToLower (pathParts ! 1) \<noteq> ''api'' then False
         else if length pathParts < 3 then True
         else (case ParseFloat (pathParts ! 2) of
                 None \<Rightarrow> True
               | Some version \<Rightarrow> if version \<in> versions then False else True))"

definition Handler_func ::
  "'h wrappers \<Rightarrow> (string \<Rightarrow> rat option) \<Rightarrow> 'h CompiledMap \<Rightarrow> rat set \<Rightarrow> string list \<Rightarrow> bool
     \<Rightarrow> string \<Rightarrow> string \<Rightarrow> error + 'h outcome" where
  "Handler_func w ParseFloat routes versions secrets handled method path =
     (if handled then Inr PluginHandled
      else if path = [] then Inl SliceBoundsOutOfRange
      else
       (let requested = drop 1 path
        in case map_of routes method of
             None \<Rightarrow> Inr ServeCatchall
           | Some mRoutes \<Rightarrow>
               (case matchLoop mRoutes requested of
                  Inl e \<Rightarrow> Inl e
                | Inr (Some (h, params)) \<Rightarrow> Inr (ServeRoute h params)
                | Inr None \<Rightarrow>
                    if IsRequestAPIAndUnknownVersion ParseFloat path versions then
                      (case secrets of
                         [] \<Rightarrow> Inl IndexOutOfRange
                       | s # _ \<Rightarrow> Inr (ServeNotImplemented (wrapAccessLog w s (NotImplementedHandler w))))
                    else Inr ServeCatchall)))"

datatype sym = Own nat | Perl | Disabled | NotImpl | AccessLog string sym | TimeOut Duration sym
  | Headers sym | Recover sym | Auth int sym

definition symW :: "sym wrappers" where
  "symW = \<lparr>getWrapAccessLog = AccessLog, wrapAccessLog = AccessLog, timeOutWrapper = TimeOut,
           wrapHeaders = Headers, wrapPanicRecover = Recover, GetWrapper = (\<lambda>ab p. Auth p),
           DisabledRouteHandler = Disabled, NotImplementedHandler = NotImpl\<rparr>"

definition mkRoute :: "rat \<Rightarrow> string \<Rightarrow> string \<Rightarrow> nat \<Rightarrow> int \<Rightarrow> sym Route" where
  "mkRoute v m p h i = \<lparr>Version = v, Method = m, Path = p, Handler = Own h, RequiredPrivLevel = 0,
      Authenticated = False, Middlewares = Some [], ID = i, CanBypassToPerl = False\<rparr>"

definition ab0 :: "sym AuthBase" where "ab0 = \<lparr>secret = ''s'', override = None\<rparr>"


section \<open>Evaluation lemmas\<close>

lemma compileLoop_done:
  "\<not> 0 < Index route CHR ''{'' \<Longrightarrow> compileLoop route params = Inr (route, params)"
  by (subst compileLoop.simps) simp

lemma compileLoop_malformed:
  "0 < Index route CHR ''{'' \<Longrightarrow> Index route CHR ''}'' < 0
   \<Longrightarrow> compileLoop route params = Inl MalformedRoute"
  by (subst compileLoop.simps) (simp add: Let_def)

lemma compileLoop_bounds:
  "0 < Index route CHR ''{'' \<Longrightarrow> 0 \<le> Index route CHR ''}''
   \<Longrightarrow> Index route CHR ''}'' < Index route CHR ''{'' + 1
   \<Longrightarrow> compileLoop route params = Inl SliceBoundsOutOfRange"
  by (subst compileLoop.simps) (simp add: Let_def)

lemma compileLoop_step:
  "0 < Index route CHR ''{'' \<Longrightarrow> Index route CHR ''{'' + 1 \<le> Index route CHR ''}''
   \<Longrightarrow> compileLoop route params =
       compileLoop (take (nat (Index route CHR ''{'')) route @ ''([^/]+)''
                      @ drop (nat (Index route CHR ''}'' + 1)) route)
         (params @ [take (nat (Index route CHR ''}'' - (Index route CHR ''{'' + 1)))
                      (drop (nat (Index route CHR ''{'' + 1)) route)])"
  by (subst compileLoop.simps) (simp add: Let_def)

lemmas compileLoop_eval = compileLoop_done compileLoop_malformed compileLoop_bounds compileLoop_step Index_def


lemma floor_rat_numeral_divide:
  "\<lfloor>numeral a / numeral b :: rat\<rfloor> = numeral a div numeral b"
  by (metis floor_divide_of_int_eq of_int_numeral)
lemma floor_rat_one_divide:
  "\<lfloor>1 / numeral b :: rat\<rfloor> = 1 div numeral b"
  by (metis floor_divide_of_int_eq of_int_1 of_int_numeral)
lemma floor_rat_minus_numeral_divide:
  "\<lfloor>- (numeral a / numeral b) :: rat\<rfloor> = - numeral a div numeral b"
  by (metis divide_minus_left floor_divide_of_int_eq of_int_neg_numeral of_int_numeral)
lemma floor_rat_minus_one_divide:
  "\<lfloor>- (1 / numeral b) :: rat\<rfloor> = - 1 div numeral b"
  by (metis divide_minus_left floor_divide_of_int_eq of_int_minus of_int_1 of_int_numeral)
lemmas floor_rat = floor_rat_numeral_divide floor_rat_one_divide floor_rat_minus_numeral_divide floor_rat_minus_one_divide

lemma show_nat_small: "n < 10 \<Longrightarrow> show_nat n = [digit_char n]"
  by (subst show_nat.simps) simp

lemma show_nat_big: "\<not> n < 10 \<Longrightarrow> show_nat n = show_nat (n div 10) @ [digit_char (n mod 10)]"
  by (subst show_nat.simps) simp

lemma frac_digits_numeral:
  "frac_digits (numeral k) x =
     (if x = 0 then []
      else digit_char (nat \<lfloor>x * 10\<rfloor>) # frac_digits (pred_numeral k) (x * 10 - of_int \<lfloor>x * 10\<rfloor>))"
  by (simp add: numeral_eq_Suc)

lemmas FormatFloat_eval = floor_rat FormatFloat_def show_nat_small show_nat_big digit_char_def frac_digits_numeral


subsection \<open>Middleware: theorems\<close>

lemma use_from_foldr:
  "n \<le> length ms \<Longrightarrow> use_from h ms n = foldr (\<lambda>m k. m k) (take n ms) h"
proof (induction n arbitrary: h)
  case 0
  then show ?case by simp
next
  case (Suc n)
  then have "take (Suc n) ms = take n ms @ [ms ! n]"
    by (simp add: take_Suc_conv_app_nth)
  with Suc show ?case by simp
qed

text \<open>
  C6. Applying the list \<open>[m1, ..., mn]\<close> to \<open>h\<close> yields \<open>m1 (m2 (... (mn h)))\<close>: the
  first-listed middleware is the outermost wrapper. For \<open>[A, B]\<close> the wrapped handler
  records A's pre-event, then B's, runs \<open>h\<close>, then records B's post-event, then A's.
\<close>

theorem use_first_is_outermost:
  "use h ms = foldr (\<lambda>m k. m k) ms h
   \<and> use h [] = h
   \<and> use h (m # ms) = m (use h ms)
   \<and> use g [around a a', around b b'] tr = g (tr @ [a, b]) @ [b', a']"
proof -
  have eq: "\<And>(k::'c) ns. use k ns = foldr (\<lambda>m k. m k) ns k"
    by (simp add: use_def use_from_foldr)
  show ?thesis
    by (simp add: eq around_def)
qed

text \<open>
  C5. The resolved middleware list is the explicit list verbatim when one is supplied,
  otherwise the default chain access log, timeout, headers, panic recovery; when
  \<open>authenticated\<close> holds, the authorization wrapper for \<open>privLevel\<close> (whatever its
  value, zero included) is appended as the last element, and nothing is appended
  otherwise.
\<close>

theorem getRouteMiddleware_resolved:
  "getRouteMiddleware w (Some ms) ab True p t = ms @ [GetWrapper w ab p]
   \<and> getRouteMiddleware w (Some ms) ab False p t = ms
   \<and> getRouteMiddleware w None ab True p t =
       [getWrapAccessLog w (secret ab), timeOutWrapper w t, wrapHeaders w, wrapPanicRecover w,
        GetWrapper w ab p]
   \<and> getRouteMiddleware w None ab False p t =
       [getWrapAccessLog w (secret ab), timeOutWrapper w t, wrapHeaders w, wrapPanicRecover w]
   \<and> getRouteMiddleware w mws ab True 0 t = getRouteMiddleware w mws ab False 0 t @ [GetWrapper w ab 0]"
  by (simp add: getRouteMiddleware_def getDefaultMiddleware_def)


end
